theory Spec2Isabelle
  imports Complex_Main
begin

section \<open>The Valetudo control card: data model\<close>

text \<open>
  The development embeds the control loop of \<^verbatim>\<open>dist/valetudo-control-card.js\<close>
  (class \<^verbatim>\<open>ValetudoControlCard\<close>). JavaScript numbers are modelled by exact reals, with
  \<^verbatim>\<open>NaN\<close> as a separate value where the code tests for it; the rounding error of
  doubles and the infinities are outside the model. The clock
  (\<^verbatim>\<open>new Date().getTime()\<close>) is an explicit argument in milliseconds. A method that
  may call the gateway returns, next to the new state of the card, the list of the
  \<^verbatim>\<open>callService\<close> invocations it made, in order. Each method runs to completion; of the DOM
  (listeners, styles, the rendered template) only the toggle button's classes and the
  style rule that disables it are part of the model.
\<close>

datatype jsnum = NaN | Num real

text \<open>
  A call of \<^verbatim>\<open>hass.callService(domain, service, data)\<close>. The host function is
  asynchronous: it either throws while it is being called, or it returns a promise that
  is later fulfilled or rejected.
\<close>

datatype service_call =
    SendCommand real real
  | SetManualControlState bool
  | SetWaterUsagePreset string
  | Dock
  | PlaySound

datatype outcome = Throws | Rejects | Resolves

record entity =
  ent_state :: string
  friendly_name :: "string option"

record hass_ctx =
  states :: "(string \<times> entity) list"
  callService :: "service_call \<Rightarrow> outcome"

record config_obj =
  cfg_entity :: string

record last_sent =
  ls_angle :: "real option"
  ls_velocity :: "real option"

record card =
  hass :: "hass_ctx option"
  config :: "config_obj option"
  velocity :: real
  angle :: real
  isConnected :: bool
  isManualControlEnabled :: bool
  isManualControlStateKnown :: bool
  isTogglingManualControl :: bool
  lastWaterUsagePreset :: "string option"
  isDragging :: bool
  commandInterval :: bool
  lastSent :: last_sent
  lastSendTime :: int
  pollingInterval :: bool

text \<open>The constants the constructor assigns and no method ever changes.\<close>

definition speed :: real where
  "speed = 1"

definition deadzone :: real where
  "deadzone = 15 / 100"

definition angleEpsilon :: real where
  "angleEpsilon = 3"

definition velocityEpsilon :: real where
  "velocityEpsilon = 2 / 100"

definition commandIntervalMs :: int where
  "commandIntervalMs = 250"

text \<open>The state the constructor leaves behind (no host context and no configuration yet).\<close>

definition constructor :: card where
  "constructor =
     \<lparr> hass = None, config = None, velocity = 0, angle = 0, isConnected = False,
       isManualControlEnabled = False, isManualControlStateKnown = False,
       isTogglingManualControl = False, lastWaterUsagePreset = None,
       isDragging = False, commandInterval = False,
       lastSent = \<lparr> ls_angle = None, ls_velocity = None \<rparr>,
       lastSendTime = 0, pollingInterval = False \<rparr>"

section \<open>The command dispatcher\<close>

text \<open>
  \<^verbatim>\<open>Math.max(-1.0, Math.min(1.0, v))\<close>, \<^verbatim>\<open>Math.round(v * 1000) / 1000\<close>,
  \<^verbatim>\<open>Math.round(a * 10) / 10\<close> and the near-zero filter of \<^verbatim>\<open>_sendCommand\<close>.
  \<^verbatim>\<open>Math.round\<close> rounds to the nearest integer with ties towards plus infinity, which
  is \<^const>\<open>round\<close>.
\<close>

definition clampVelocity :: "real \<Rightarrow> real" where
  "clampVelocity v = max (- 1) (min 1 v)"

definition round3 :: "real \<Rightarrow> real" where
  "round3 v = of_int (round (v * 1000)) / 1000"

definition round1 :: "real \<Rightarrow> real" where
  "round1 a = of_int (round (a * 10)) / 10"

definition snapVelocity :: "real \<Rightarrow> real" where
  "snapVelocity v = (if \<bar>v\<bar> < velocityEpsilon then 0 else v)"

definition numVelocity :: "real \<Rightarrow> real" where
  "numVelocity v = snapVelocity (round3 (clampVelocity v))"

definition numAngle :: "real \<Rightarrow> real" where
  "numAngle a = round1 a"

definition angleChanged :: "card \<Rightarrow> real \<Rightarrow> bool" where
  "angleChanged c na =
     (case ls_angle (lastSent c) of
        None \<Rightarrow> True
      | Some la \<Rightarrow> \<bar>na - la\<bar> > angleEpsilon)"

definition velocityChanged :: "card \<Rightarrow> real \<Rightarrow> bool" where
  "velocityChanged c nv =
     (case ls_velocity (lastSent c) of
        None \<Rightarrow> True
      | Some lv \<Rightarrow> \<bar>nv - lv\<bar> > velocityEpsilon)"

definition shouldSend :: "card \<Rightarrow> real \<Rightarrow> real \<Rightarrow> int \<Rightarrow> bool" where
  "shouldSend c nv na currentTime =
     (ls_angle (lastSent c) = None
      \<or> currentTime - lastSendTime c \<ge> commandIntervalMs
      \<or> angleChanged c na
      \<or> velocityChanged c nv)"

text \<open>
  \<^verbatim>\<open>_sendCommand(velocity, angle)\<close>. The result is the new state and the list of
  \<^verbatim>\<open>callService\<close> invocations the call made (none or one). The
  \<^verbatim>\<open>try\<close>/\<^verbatim>\<open>catch\<close> around the invocation is not awaited, so only a synchronous throw
  reaches the \<^verbatim>\<open>catch\<close> block; a promise that is rejected later does not.
\<close>

definition sendCommand :: "card \<Rightarrow> jsnum \<Rightarrow> jsnum \<Rightarrow> int \<Rightarrow> card \<times> service_call list" where
  "sendCommand c v a currentTime =
     (case hass c of
        None \<Rightarrow> (c, [])
      | Some h \<Rightarrow>
          if isManualControlEnabled c then
            (case (v, a) of
               (Num rv, Num ra) \<Rightarrow>
                 (let nv = numVelocity rv; na = numAngle ra in
                  if nv = 0 \<and> ls_velocity (lastSent c) = Some 0
                       \<and> \<not> angleChanged c na \<and> na = 0
                  then (c, [])
                  else if shouldSend c nv na currentTime then
                    (case callService h (SendCommand nv na) of
                       Throws \<Rightarrow> (c, [SendCommand nv na])
                     | _ \<Rightarrow>
                         (c\<lparr> lastSent := \<lparr> ls_angle = Some na, ls_velocity = Some nv \<rparr>,
                             lastSendTime := currentTime \<rparr>,
                          [SendCommand nv na]))
                  else (c, []))
             | _ \<Rightarrow> (c, []))
          else (c, []))"

text \<open>\<^verbatim>\<open>_sendStopCommand()\<close>.\<close>

definition sendStopCommand :: "card \<Rightarrow> int \<Rightarrow> card \<times> service_call list" where
  "sendStopCommand c currentTime = sendCommand c (Num 0) (Num 0) currentTime"

section \<open>The joystick surface\<close>

text \<open>
  \<^verbatim>\<open>_resetJoystick(sendStopCommand = true)\<close>. The style of the handle element is not
  part of the model.
\<close>

definition resetJoystick :: "card \<Rightarrow> bool \<Rightarrow> int \<Rightarrow> card \<times> service_call list" where
  "resetJoystick c sendStop currentTime =
     (let c1 = (if isDragging c then c else c\<lparr> velocity := 0, angle := 0 \<rparr>) in
      if sendStop then sendCommand c1 (Num 0) (Num 0) currentTime else (c1, []))"

text \<open>
  \<^verbatim>\<open>_handleJoystickEnd(e)\<close>: the handler of \<^verbatim>\<open>mouseup\<close> and \<^verbatim>\<open>touchend\<close>. The
  document listeners it removes are not part of the model; \<^const>\<open>commandInterval\<close> tells
  whether a resend timer is stored.
\<close>

definition handleJoystickEnd :: "card \<Rightarrow> int \<Rightarrow> card \<times> service_call list" where
  "handleJoystickEnd c currentTime =
     (if isDragging c then
        resetJoystick (c\<lparr> isDragging := False, commandInterval := False \<rparr>) True currentTime
      else (c, []))"

text \<open>
  \<^verbatim>\<open>updated(changedProperties)\<close>, which the rendering library calls after reactive
  properties have changed; the argument lists the properties that changed.
\<close>

datatype property =
    P_hass
  | P_config
  | P_velocity
  | P_angle
  | P_isConnected
  | P_isManualControlEnabled
  | P_isTogglingManualControl
  | P_lastWaterUsagePreset

definition shouldResetJoystick :: "card \<Rightarrow> property list \<Rightarrow> bool" where
  "shouldResetJoystick c changed =
     ((P_isManualControlEnabled \<in> set changed \<and> \<not> isManualControlEnabled c)
      \<or> (P_isManualControlEnabled \<in> set changed \<and> isManualControlEnabled c)
      \<or> P_velocity \<in> set changed \<or> P_angle \<in> set changed
      \<or> P_config \<in> set changed
      \<or> P_isConnected \<in> set changed)"

definition updated :: "card \<Rightarrow> property list \<Rightarrow> int \<Rightarrow> card \<times> service_call list" where
  "updated c changed currentTime =
     (let r1 = (if P_isManualControlEnabled \<in> set changed
                    \<and> \<not> isManualControlEnabled c \<and> isDragging c
                then resetJoystick (c\<lparr> isDragging := False, commandInterval := False \<rparr>)
                       True currentTime
                else (c, []))
      in if isDragging (fst r1) then r1
         else if shouldResetJoystick (fst r1) changed then
           (let r2 = resetJoystick (fst r1) True currentTime in (fst r2, snd r1 @ snd r2))
         else r1)"

section \<open>The vector shaper\<close>

text \<open>\<^verbatim>\<open>Math.atan2(y, x)\<close> on finite numbers (signed zeros are not distinguished).\<close>

definition atan2 :: "real \<Rightarrow> real \<Rightarrow> real" where
  "atan2 y x =
     (if x > 0 then arctan (y / x)
      else if x < 0 then (if y \<ge> 0 then arctan (y / x) + pi else arctan (y / x) - pi)
      else if y > 0 then pi / 2
      else if y < 0 then - pi / 2
      else 0)"

definition normalizeAxisValue :: "real \<Rightarrow> real" where
  "normalizeAxisValue val = max 0 (val - deadzone) / (1 - deadzone)"

text \<open>\<^verbatim>\<open>_calculateMovement(xAxis, yAxis)\<close>, which stores the vector in the card.\<close>

definition calculateMovement :: "card \<Rightarrow> real \<Rightarrow> real \<Rightarrow> card" where
  "calculateMovement c xAxis yAxis =
     (let absX = \<bar>xAxis\<bar>; absY = \<bar>yAxis\<bar>; maxSpeed = speed in
      if absX < deadzone \<and> absY < deadzone then c\<lparr> velocity := 0, angle := 0 \<rparr>
      else if absY > deadzone \<and> absX < deadzone * (15 / 10) then
        (let v = normalizeAxisValue absY * maxSpeed in
         c\<lparr> velocity := clampVelocity (if yAxis > 0 then v else - v), angle := 0 \<rparr>)
      else if absX > deadzone \<and> absY < deadzone * (15 / 10) then
        c\<lparr> velocity := 0, angle := (if xAxis > 0 then 90 else - 90) \<rparr>
      else
        (let correctedX = (if yAxis < 0 then - xAxis else xAxis);
             ang = atan2 correctedX yAxis * 180 / pi;
             magnitude = sqrt (xAxis * xAxis + yAxis * yAxis);
             v = normalizeAxisValue magnitude * maxSpeed
         in c\<lparr> angle := ang, velocity := clampVelocity (if yAxis > 0 then v else - v) \<rparr>))"

section \<open>The joystick surface: the start of a drag\<close>

text \<open>
  \<^verbatim>\<open>_updateJoystickPosition(e)\<close> from the point where the normalized axes are known: the
  pixel geometry that produces them (the bounding rectangle, the clamping to the circle) is
  not part of the model, and the handle and area elements are taken to exist.
\<close>

definition updateJoystickPosition :: "card \<Rightarrow> real \<Rightarrow> real \<Rightarrow> card" where
  "updateJoystickPosition c normalizedX normalizedY =
     (if \<bar>normalizedX\<bar> < deadzone \<and> \<bar>normalizedY\<bar> < deadzone
      then c\<lparr> velocity := 0, angle := 0 \<rparr>
      else calculateMovement c normalizedX normalizedY)"

text \<open>
  \<^verbatim>\<open>_handleJoystickStart(e)\<close> and \<^verbatim>\<open>_handleJoystickMove(e)\<close>. The start handler sends the
  first command at once and leaves the creation of the resend timer to a timeout of 50 ms
  (\<open>startCommandInterval\<close>); every tick of that timer is \<open>commandIntervalTick\<close>.
\<close>

definition handleJoystickStart ::
    "card \<Rightarrow> real \<Rightarrow> real \<Rightarrow> int \<Rightarrow> card \<times> service_call list" where
  "handleJoystickStart c normalizedX normalizedY currentTime =
     (if isManualControlEnabled c then
        (let c1 = updateJoystickPosition (c\<lparr> isDragging := True \<rparr>) normalizedX normalizedY
         in sendCommand c1 (Num (velocity c1)) (Num (angle c1)) currentTime)
      else (c, []))"

definition startCommandInterval :: "card \<Rightarrow> card" where
  "startCommandInterval c = c\<lparr> commandInterval := True \<rparr>"

definition commandIntervalTick :: "card \<Rightarrow> int \<Rightarrow> card \<times> service_call list" where
  "commandIntervalTick c currentTime =
     sendCommand c (Num (velocity c)) (Num (angle c)) currentTime"

definition handleJoystickMove :: "card \<Rightarrow> real \<Rightarrow> real \<Rightarrow> card" where
  "handleJoystickMove c normalizedX normalizedY =
     (if isDragging c then updateJoystickPosition c normalizedX normalizedY else c)"

section \<open>The manual-control reconciler\<close>

text \<open>
  \<^verbatim>\<open>s.startsWith(p)\<close> and \<^verbatim>\<open>s.includes(p)\<close> on strings, and the test both
  \<^verbatim>\<open>_initializeManualControlState\<close> and \<^verbatim>\<open>_findAndSetManualControlState\<close> apply to
  the entries of \<^verbatim>\<open>hass.states\<close> (in the order of \<^verbatim>\<open>Object.entries\<close>).
\<close>

fun startsWith :: "string \<Rightarrow> string \<Rightarrow> bool" where
  "startsWith s [] = True"
| "startsWith [] (p # ps) = False"
| "startsWith (x # xs) (p # ps) = (x = p \<and> startsWith xs ps)"

fun includes_str :: "string \<Rightarrow> string \<Rightarrow> bool" where
  "includes_str [] p = (p = [])"
| "includes_str (x # xs) p = (startsWith (x # xs) p \<or> includes_str xs p)"

definition isManualControlSwitch :: "string \<times> entity \<Rightarrow> bool" where
  "isManualControlSwitch e =
     (startsWith (fst e) ''switch.'' \<and>
      (includes_str (fst e) ''_manual_control''
       \<or> includes_str (fst e) ''manual_control_''
       \<or> (case friendly_name (snd e) of
             None \<Rightarrow> False
           | Some n \<Rightarrow> n \<noteq> [] \<and> includes_str n ''Manual Control'')))"

definition findSwitchEntity :: "hass_ctx \<Rightarrow> entity option" where
  "findSwitchEntity h = map_option snd (find isManualControlSwitch (states h))"

text \<open>The guard \<^verbatim>\<open>!this.hass || !this.config || !this.config.entity\<close>, negated.\<close>

definition ready :: "card \<Rightarrow> hass_ctx option" where
  "ready c =
     (case hass c of
        None \<Rightarrow> None
      | Some h \<Rightarrow>
          (case config c of
             None \<Rightarrow> None
           | Some g \<Rightarrow> if cfg_entity g = [] then None else Some h))"

definition initializeManualControlState :: "card \<Rightarrow> card" where
  "initializeManualControlState c =
     (case ready c of
        None \<Rightarrow> c
      | Some h \<Rightarrow>
          (case findSwitchEntity h of
             None \<Rightarrow> c
           | Some e \<Rightarrow>
               (let manualControlState = (ent_state e = ''on'') in
                if isManualControlEnabled c \<noteq> manualControlState then
                  c\<lparr> isManualControlEnabled := manualControlState,
                      isManualControlStateKnown := True \<rparr>
                else c)))"

text \<open>\<^verbatim>\<open>_findAndSetManualControlState()\<close>: the body of the 5 s poll tick.\<close>

definition findAndSetManualControlState :: "card \<Rightarrow> card" where
  "findAndSetManualControlState c =
     (case ready c of
        None \<Rightarrow> c
      | Some h \<Rightarrow>
          (case findSwitchEntity h of
             Some e \<Rightarrow>
               (let manualControlState = (ent_state e = ''on'') in
                if isManualControlEnabled c \<noteq> manualControlState then
                  c\<lparr> isManualControlEnabled := manualControlState,
                      isManualControlStateKnown := True,
                      isTogglingManualControl := False \<rparr>
                else if isTogglingManualControl c then
                  c\<lparr> isTogglingManualControl := False \<rparr>
                else c)
           | None \<Rightarrow> initializeManualControlState c))"

text \<open>
  \<^verbatim>\<open>_getWaterUsagePreset()\<close> and \<^verbatim>\<open>_setWaterUsagePreset(preset)\<close>; the latter awaits
  its call inside its own \<^verbatim>\<open>try\<close>, so a failure of the call changes nothing.
\<close>

definition getWaterUsagePreset :: "card \<Rightarrow> string option" where
  "getWaterUsagePreset c = (case hass c of None \<Rightarrow> None | Some h \<Rightarrow> Some ''off'')"

definition setWaterUsagePreset :: "card \<Rightarrow> string \<Rightarrow> service_call list" where
  "setWaterUsagePreset c preset =
     (case hass c of None \<Rightarrow> [] | Some h \<Rightarrow> [SetWaterUsagePreset preset])"

text \<open>
  \<^verbatim>\<open>_toggleManualControl()\<close>, run to completion: the handlers that could run while the
  function is suspended at an \<^verbatim>\<open>await\<close> are not interleaved. The awaited call of
  \<^verbatim>\<open>set_manual_control_state\<close> reaches the \<^verbatim>\<open>catch\<close> block when it throws and when
  its promise is rejected.
\<close>

definition toggleManualControl :: "card \<Rightarrow> card \<times> service_call list" where
  "toggleManualControl c =
     (case hass c of
        None \<Rightarrow> (c, [])
      | Some h \<Rightarrow>
          (let c1 = c\<lparr> isTogglingManualControl := True \<rparr>;
               desiredState = (\<not> isManualControlEnabled c1);
               c2 = (if desiredState
                     then c1\<lparr> lastWaterUsagePreset := getWaterUsagePreset c1 \<rparr> else c1);
               out1 = (if desiredState then setWaterUsagePreset c2 ''off'' else [])
           in case callService h (SetManualControlState desiredState) of
                Resolves \<Rightarrow>
                  (c2, out1 @ [SetManualControlState desiredState] @
                       (case lastWaterUsagePreset c2 of
                          None \<Rightarrow> []
                        | Some p \<Rightarrow>
                            if desiredState \<or> p = [] then []
                            else setWaterUsagePreset c2 p))
              | _ \<Rightarrow> (c2, out1 @ [SetManualControlState desiredState])))"

text \<open>\<^verbatim>\<open>_dock()\<close> and \<^verbatim>\<open>_playSound()\<close>: one call each, whose failure is only logged.\<close>

definition dock :: "card \<Rightarrow> card \<times> service_call list" where
  "dock c = (case hass c of None \<Rightarrow> (c, []) | Some h \<Rightarrow> (c, [Dock]))"

definition playSound :: "card \<Rightarrow> card \<times> service_call list" where
  "playSound c = (case hass c of None \<Rightarrow> (c, []) | Some h \<Rightarrow> (c, [PlaySound]))"




text \<open>
  The specification's three-state view of the reconciler, read off the two flags the
  card keeps: a toggle is pending while \<^verbatim>\<open>_isTogglingManualControl\<close> is set, and its target
  is the negation of the last known value.
\<close>

datatype manual_control_state = Disabled | Enabled | PendingToggle bool

definition reconciler_state :: "card \<Rightarrow> manual_control_state" where
  "reconciler_state c =
     (if isTogglingManualControl c then PendingToggle (\<not> isManualControlEnabled c)
      else if isManualControlEnabled c then Enabled
      else Disabled)"

section \<open>Concrete states\<close>

text \<open>
  A host context with one manual-control switch whose calls all succeed, a configuration,
  and the card as it is once a poll has seen the switch \<^verbatim>\<open>on\<close>.
\<close>

definition ex_hass :: hass_ctx where
  "ex_hass =
     \<lparr> states = [(''switch.robot_manual_control'',
                  \<lparr> ent_state = ''on'', friendly_name = None \<rparr>)],
       callService = (\<lambda>call. Resolves) \<rparr>"

definition ex_config :: config_obj where
  "ex_config = \<lparr> cfg_entity = ''sensor.valetudo_robot_battery'' \<rparr>"

definition enabled_card :: card where
  "enabled_card =
     constructor\<lparr> hass := Some ex_hass, config := Some ex_config, isConnected := True,
                  isManualControlEnabled := True, isManualControlStateKnown := True \<rparr>"

text \<open>
  The card before any poll has seen the switch on, the card while a request to disable is
  pending, and the card in the middle of a drag whose current velocity is \<open>v\<close>.
\<close>

definition disabled_card :: card where
  "disabled_card =
     constructor\<lparr> hass := Some ex_hass, config := Some ex_config, isConnected := True \<rparr>"

definition pending_disable_card :: card where
  "pending_disable_card = enabled_card\<lparr> isTogglingManualControl := True \<rparr>"

definition dragging_card :: "real \<Rightarrow> card" where
  "dragging_card v =
     enabled_card\<lparr> isDragging := True, commandInterval := True, velocity := v \<rparr>"

text \<open>
  The card in the middle of a drag that rests at the centre, after its command \<open>(0, 0)\<close>
  was sent at time 1000, and in the middle of a drag at half speed, after \<open>(0.5, 0)\<close> was
  sent at time 1000.
\<close>

definition idle_drag_card :: card where
  "idle_drag_card =
     (dragging_card 0)\<lparr> lastSent := \<lparr> ls_angle = Some 0, ls_velocity = Some 0 \<rparr>,
                         lastSendTime := 1000 \<rparr>"

definition moving_drag_card :: card where
  "moving_drag_card =
     (dragging_card (1 / 2))\<lparr> lastSent := \<lparr> ls_angle = Some 0, ls_velocity = Some (1 / 2) \<rparr>,
                               lastSendTime := 1000 \<rparr>"

text \<open>
  A host context whose switch is \<^verbatim>\<open>off\<close> and the disabled card that sees it; that card
  while a request to enable is pending and the switch is still off; the pending card when
  no switch entity exists; and the enabled card with a gateway whose promises are rejected,
  and with one that throws.
\<close>

definition off_hass :: hass_ctx where
  "off_hass =
     ex_hass\<lparr> states := [(''switch.robot_manual_control'',
                           \<lparr> ent_state = ''off'', friendly_name = None \<rparr>)] \<rparr>"

definition off_card :: card where
  "off_card = disabled_card\<lparr> hass := Some off_hass \<rparr>"

definition pending_enable_card :: card where
  "pending_enable_card =
     off_card\<lparr> isTogglingManualControl := True, lastWaterUsagePreset := Some ''off'' \<rparr>"

definition no_switch_card :: card where
  "no_switch_card =
     disabled_card\<lparr> hass := Some (ex_hass\<lparr> states := [] \<rparr>),
                     isTogglingManualControl := True \<rparr>"

definition rejecting_hass :: hass_ctx where
  "rejecting_hass = ex_hass\<lparr> callService := (\<lambda>call. Rejects) \<rparr>"

definition rejecting_card :: card where
  "rejecting_card = enabled_card\<lparr> hass := Some rejecting_hass \<rparr>"

definition throwing_card :: card where
  "throwing_card =
     enabled_card\<lparr> hass := Some (ex_hass\<lparr> callService := (\<lambda>call. Throws) \<rparr>) \<rparr>"

section \<open>Properties of the dispatcher\<close>

lemma clampVelocity_bounds: "- 1 \<le> clampVelocity v \<and> clampVelocity v \<le> 1"
  by (simp add: clampVelocity_def)

lemma round3_bounds:
  assumes "- 1 \<le> v" "v \<le> 1"
  shows "- 1 \<le> round3 v \<and> round3 v \<le> 1"
proof -
  have "round (v * 1000) \<le> round (1000::real)"
    using assms by (intro round_mono) simp
  moreover have "round (- 1000::real) \<le> round (v * 1000)"
    using assms by (intro round_mono) simp
  ultimately have "- 1000 \<le> round (v * 1000) \<and> round (v * 1000) \<le> 1000"
    by simp
  then show ?thesis
    by (simp add: round3_def)
qed

lemma numVelocity_range: "- 1 \<le> numVelocity v \<and> numVelocity v \<le> 1"
  using round3_bounds [of "clampVelocity v"] clampVelocity_bounds [of v]
  by (simp add: numVelocity_def snapVelocity_def)


lemma numVelocity_0 [simp]: "numVelocity 0 = 0"
  by (simp add: numVelocity_def snapVelocity_def round3_def clampVelocity_def)

lemma numAngle_0 [simp]: "numAngle 0 = 0"
  by (simp add: numAngle_def round1_def)


text \<open>A vector with a \<^verbatim>\<open>NaN\<close> component is rejected before anything else happens.\<close>

lemma sendCommand_NaN:
  "sendCommand c NaN a t = (c, [])" "sendCommand c v NaN t = (c, [])"
  by (simp_all add: sendCommand_def split: option.splits jsnum.splits)

text \<open>
  Claim C5 (first send): for every vector of numbers, \<open>(0, 0)\<close> included, a dispatcher call
  made with a host context, with manual control enabled and with an empty cache (the
  last-sent angle is \<^verbatim>\<open>null\<close>) invokes the gateway, with the processed vector.
\<close>

theorem first_send_always_transmits:
  assumes "hass c = Some h" "isManualControlEnabled c" "ls_angle (lastSent c) = None"
  shows "snd (sendCommand c (Num v) (Num a) t) = [SendCommand (numVelocity v) (numAngle a)]"
  using assms
  by (simp add: sendCommand_def Let_def angleChanged_def shouldSend_def split: outcome.splits)

theorem first_send_always_transmits_witness:
  "hass enabled_card = Some ex_hass \<and> isManualControlEnabled enabled_card
   \<and> ls_angle (lastSent enabled_card) = None
   \<and> snd (sendCommand enabled_card (Num 0) (Num 0) 1000) = [SendCommand 0 0]"
proof -
  have h: "hass enabled_card = Some ex_hass" "isManualControlEnabled enabled_card"
    "ls_angle (lastSent enabled_card) = None"
    by (simp_all add: enabled_card_def constructor_def)
  show ?thesis
    using h first_send_always_transmits [OF h, of 0 0 1000] by simp
qed






section \<open>The gate on the enabled flag\<close>

lemma sendCommand_disabled:
  "\<not> isManualControlEnabled c \<Longrightarrow> sendCommand c v a t = (c, [])"
  by (simp add: sendCommand_def split: option.splits)

lemma resetJoystick_disabled:
  assumes "\<not> isManualControlEnabled c"
  shows "snd (resetJoystick c s t) = []"
    and "\<not> isManualControlEnabled (fst (resetJoystick c s t))"
    and "isDragging (fst (resetJoystick c s t)) = isDragging c"
  using assms by (simp_all add: resetJoystick_def Let_def sendCommand_disabled)

lemma handleJoystickEnd_disabled:
  "\<not> isManualControlEnabled c \<Longrightarrow> snd (handleJoystickEnd c t) = []"
  by (simp add: handleJoystickEnd_def resetJoystick_disabled)

lemma updated_disabled:
  assumes "\<not> isManualControlEnabled c"
  shows "snd (updated c changed t) = []"
proof -
  let ?c' = "c\<lparr> isDragging := False, commandInterval := False \<rparr>"
  let ?r1 = "if P_isManualControlEnabled \<in> set changed
                  \<and> \<not> isManualControlEnabled c \<and> isDragging c
             then resetJoystick ?c' True t else (c, [])"
  have d: "\<not> isManualControlEnabled ?c'"
    using assms by simp
  have a: "snd ?r1 = []" and b: "\<not> isManualControlEnabled (fst ?r1)"
    using assms resetJoystick_disabled [OF d] by simp_all
  have "snd (resetJoystick (fst ?r1) True t) = []"
    using resetJoystick_disabled(1) [OF b] .
  with a show ?thesis
    by (simp add: updated_def Let_def)
qed

lemma reconciler_state_gate:
  "(reconciler_state c = Disabled \<or> reconciler_state c = PendingToggle True)
     = (\<not> isManualControlEnabled c)"
  by (auto simp: reconciler_state_def)

text \<open>
  Claim C2 (gating), as the code has it: while \<^verbatim>\<open>_isManualControlEnabled\<close> is false, that
  is in \<open>Disabled\<close> and in \<open>PendingToggle\<close> with target \<open>true\<close>, no dispatcher call
  invokes the gateway and the cache is untouched; the stop commands issued when a drag ends
  (\<^verbatim>\<open>_handleJoystickEnd\<close>, \<^verbatim>\<open>updated\<close>) pass through the same gate and are not sent
  either.
\<close>

theorem no_transmission_while_flag_clear:
  assumes "reconciler_state c = Disabled \<or> reconciler_state c = PendingToggle True"
  shows "sendCommand c v a t = (c, []) \<and> snd (handleJoystickEnd c t) = []
         \<and> snd (updated c changed t) = []"
  using assms sendCommand_disabled handleJoystickEnd_disabled updated_disabled
  by (simp add: reconciler_state_gate)

theorem no_transmission_while_flag_clear_witness:
  "reconciler_state disabled_card = Disabled
   \<and> sendCommand disabled_card (Num (1 / 2)) (Num 0) 1000 = (disabled_card, [])
   \<and> snd (handleJoystickEnd disabled_card 1000) = []
   \<and> snd (updated disabled_card [P_isManualControlEnabled] 1000) = []"
proof -
  have h: "reconciler_state disabled_card = Disabled"
    by (simp add: reconciler_state_def disabled_card_def constructor_def)
  show ?thesis
    using h no_transmission_while_flag_clear [of disabled_card "Num (1 / 2)" "Num 0" 1000
        "[P_isManualControlEnabled]"]
    by simp
qed

lemma numVelocity_half: "numVelocity (1 / 2) = 1 / 2"
  by (simp add: numVelocity_def snapVelocity_def round3_def clampVelocity_def
      velocityEpsilon_def)

text \<open>The enabled card is what a poll tick makes of the disabled one, and the card with a
  pending disable is what a toggle request makes of the enabled one.\<close>

lemma poll_enables: "findAndSetManualControlState disabled_card = enabled_card"
proof -
  have "isManualControlSwitch (''switch.robot_manual_control'', e)" for e
    by (simp add: isManualControlSwitch_def)
  then have "findSwitchEntity ex_hass = Some \<lparr> ent_state = ''on'', friendly_name = None \<rparr>"
    by (simp add: findSwitchEntity_def ex_hass_def)
  moreover have "ready disabled_card = Some ex_hass"
    by (simp add: ready_def disabled_card_def ex_config_def)
  ultimately show ?thesis
    by (simp add: findAndSetManualControlState_def disabled_card_def enabled_card_def
        constructor_def)
qed

lemma toggle_enabled_card:
  "toggleManualControl enabled_card = (pending_disable_card, [SetManualControlState False])"
  by (simp add: toggleManualControl_def Let_def pending_disable_card_def enabled_card_def
      constructor_def ex_hass_def)

text \<open>
  Claim C2 as stated fails in \<open>PendingToggle\<close> with target \<open>false\<close>: a disable has been
  requested on the enabled card, no poll has confirmed it yet, and the dispatcher still
  transmits a command that is not a stop command.
\<close>

theorem pending_disable_transmits:
  "fst (toggleManualControl enabled_card) = pending_disable_card
   \<and> reconciler_state pending_disable_card = PendingToggle False
   \<and> reconciler_state pending_disable_card \<noteq> Enabled
   \<and> snd (sendCommand pending_disable_card (Num (1 / 2)) (Num 0) 1000)
       = [SendCommand (1 / 2) 0]"
  by (simp add: toggle_enabled_card)
    (simp add: reconciler_state_def pending_disable_card_def enabled_card_def
      constructor_def sendCommand_def ex_hass_def numVelocity_half angleChanged_def
      shouldSend_def Let_def)

section \<open>The end of a drag\<close>

text \<open>When the dispatcher transmits the stop vector.\<close>

lemma sendCommand_stop:
  "snd (sendCommand c (Num 0) (Num 0) t) =
     (if hass c \<noteq> None \<and> isManualControlEnabled c
         \<and> (angleChanged c 0
            \<or> (ls_velocity (lastSent c) \<noteq> Some 0
                \<and> (commandIntervalMs \<le> t - lastSendTime c \<or> velocityChanged c 0)))
      then [SendCommand 0 0] else [])"
  by (auto simp: sendCommand_def Let_def shouldSend_def angleChanged_def
      split: option.splits outcome.splits)

lemma handleJoystickEnd_stop:
  assumes "isDragging c"
  shows "snd (handleJoystickEnd c t) =
        (if hass c \<noteq> None \<and> isManualControlEnabled c
            \<and> (angleChanged c 0
               \<or> (ls_velocity (lastSent c) \<noteq> Some 0
                   \<and> (commandIntervalMs \<le> t - lastSendTime c \<or> velocityChanged c 0)))
         then [SendCommand 0 0] else [])"
proof -
  let ?c' = "c\<lparr> isDragging := False, commandInterval := False, velocity := 0, angle := 0 \<rparr>"
  have "snd (sendCommand ?c' (Num 0) (Num 0) t) =
        (if hass c \<noteq> None \<and> isManualControlEnabled c
            \<and> (angleChanged c 0
               \<or> (ls_velocity (lastSent c) \<noteq> Some 0
                   \<and> (commandIntervalMs \<le> t - lastSendTime c \<or> velocityChanged c 0)))
         then [SendCommand 0 0] else [])"
    unfolding sendCommand_stop [of ?c' t]
    by (simp add: angleChanged_def velocityChanged_def)
  then show ?thesis
    using assms by (simp add: handleJoystickEnd_def resetJoystick_def Let_def)
qed

text \<open>
  Claim C1 (stop on release), as the code has it: the end of a drag calls the ordinary
  dispatcher with \<open>(0, 0)\<close>; no path forces the transmission. Pointer-up transmits at most
  one command, and only the stop command. It transmits it when a host context is there,
  manual control is enabled, and the cache is empty, or the last-sent vector is more than
  an epsilon away from \<open>(0, 0)\<close>, or the last-sent velocity is not \<open>0\<close> and 250 ms have passed
  since the last send. It transmits nothing without a host context, while manual control
  is disabled, and when the last-sent command already had velocity \<open>0\<close> and an angle within
  3 degrees of \<open>0\<close>. When manual control has been disabled, \<^verbatim>\<open>updated\<close> transmits nothing.
\<close>

theorem drag_end_stop_command:
  "(isDragging c \<longrightarrow>
      (snd (handleJoystickEnd c t) = [] \<or> snd (handleJoystickEnd c t) = [SendCommand 0 0])
      \<and> (hass c \<noteq> None \<and> isManualControlEnabled c
           \<and> (angleChanged c 0 \<or> velocityChanged c 0
               \<or> (ls_velocity (lastSent c) \<noteq> Some 0
                   \<and> commandIntervalMs \<le> t - lastSendTime c))
          \<longrightarrow> snd (handleJoystickEnd c t) = [SendCommand 0 0])
      \<and> (hass c = None \<or> \<not> isManualControlEnabled c
           \<or> (ls_velocity (lastSent c) = Some 0 \<and> \<not> angleChanged c 0)
          \<longrightarrow> snd (handleJoystickEnd c t) = []))
   \<and> (\<not> isManualControlEnabled c \<longrightarrow> snd (updated c changed t) = [])"
proof -
  have "velocityChanged c 0 \<Longrightarrow> ls_velocity (lastSent c) \<noteq> Some 0"
    by (auto simp: velocityChanged_def velocityEpsilon_def)
  then show ?thesis
    using updated_disabled [of c changed t] handleJoystickEnd_stop [of c t]
    by auto
qed

text \<open>
  The two cards in the middle of a drag are what the start of a drag on the enabled card
  leaves behind: a press at the centre, and a press straight ahead at \<open>y = 0.575\<close> (written
  \<open>23 / 40\<close>), which the shaper turns into the velocity \<open>0.5\<close>.
\<close>

lemma idle_drag_reached:
  "handleJoystickStart enabled_card 0 0 1000
     = (idle_drag_card\<lparr> commandInterval := False \<rparr>, [SendCommand 0 0])
   \<and> startCommandInterval (idle_drag_card\<lparr> commandInterval := False \<rparr>) = idle_drag_card"
  by (simp add: handleJoystickStart_def updateJoystickPosition_def startCommandInterval_def
      deadzone_def sendCommand_def Let_def idle_drag_card_def dragging_card_def
      enabled_card_def constructor_def ex_hass_def angleChanged_def shouldSend_def)

lemma shape_straight_ahead:
  "calculateMovement c 0 (23 / 40) = c\<lparr> velocity := 1 / 2, angle := 0 \<rparr>"
  by (simp add: calculateMovement_def Let_def deadzone_def normalizeAxisValue_def speed_def
      clampVelocity_def)

lemma moving_drag_reached:
  "handleJoystickStart enabled_card 0 (23 / 40) 1000
     = (moving_drag_card\<lparr> commandInterval := False \<rparr>, [SendCommand (1 / 2) 0])
   \<and> startCommandInterval (moving_drag_card\<lparr> commandInterval := False \<rparr>)
       = moving_drag_card"
  by (simp add: handleJoystickStart_def updateJoystickPosition_def startCommandInterval_def
      shape_straight_ahead deadzone_def sendCommand_def Let_def moving_drag_card_def
      dragging_card_def enabled_card_def constructor_def ex_hass_def angleChanged_def
      shouldSend_def numVelocity_half)

text \<open>
  Claim C1 as stated fails: a drag that rests at the centre, whose command \<open>(0, 0)\<close> was
  transmitted, ends without any transmission, whatever time has passed; and a drag at half
  speed that ends because manual control was disabled transmits nothing.
\<close>

theorem drag_end_stop_suppressed:
  "snd (handleJoystickStart enabled_card 0 0 1000) = [SendCommand 0 0]
   \<and> startCommandInterval (fst (handleJoystickStart enabled_card 0 0 1000)) = idle_drag_card
   \<and> isDragging idle_drag_card \<and> isManualControlEnabled idle_drag_card
   \<and> snd (handleJoystickEnd idle_drag_card 2000) = []
   \<and> isDragging (moving_drag_card\<lparr> isManualControlEnabled := False \<rparr>)
   \<and> snd (updated (moving_drag_card\<lparr> isManualControlEnabled := False \<rparr>)
            [P_isManualControlEnabled] 2000) = []"
proof -
  have "snd (handleJoystickEnd idle_drag_card 2000) = []"
    by (simp add: handleJoystickEnd_stop idle_drag_card_def dragging_card_def
        enabled_card_def constructor_def angleChanged_def angleEpsilon_def)
  then show ?thesis
    by (simp add: updated_disabled idle_drag_reached)
      (simp add: idle_drag_card_def moving_drag_card_def dragging_card_def enabled_card_def
        constructor_def)
qed

theorem drag_end_stop_command_witness:
  "isDragging moving_drag_card \<and> hass moving_drag_card \<noteq> None
   \<and> isManualControlEnabled moving_drag_card \<and> velocityChanged moving_drag_card 0
   \<and> snd (handleJoystickEnd moving_drag_card 1100) = [SendCommand 0 0]
   \<and> isDragging idle_drag_card \<and> ls_velocity (lastSent idle_drag_card) = Some 0
   \<and> \<not> angleChanged idle_drag_card 0
   \<and> snd (handleJoystickEnd idle_drag_card 1100) = []
   \<and> \<not> isManualControlEnabled (moving_drag_card\<lparr> isManualControlEnabled := False \<rparr>)
   \<and> snd (updated (moving_drag_card\<lparr> isManualControlEnabled := False \<rparr>)
            [P_isManualControlEnabled] 1100) = []"
proof -
  have m: "isDragging moving_drag_card" "hass moving_drag_card \<noteq> None"
    "isManualControlEnabled moving_drag_card" "velocityChanged moving_drag_card 0"
    by (simp_all add: moving_drag_card_def dragging_card_def enabled_card_def constructor_def
        velocityChanged_def velocityEpsilon_def)
  have i: "isDragging idle_drag_card" "ls_velocity (lastSent idle_drag_card) = Some 0"
    "\<not> angleChanged idle_drag_card 0"
    by (simp_all add: idle_drag_card_def dragging_card_def enabled_card_def constructor_def
        angleChanged_def angleEpsilon_def)
  have d: "\<not> isManualControlEnabled (moving_drag_card\<lparr> isManualControlEnabled := False \<rparr>)"
    by simp
  show ?thesis
    using m i d
      drag_end_stop_command [where c = moving_drag_card and t = 1100]
      drag_end_stop_command [where c = idle_drag_card and t = 1100]
      drag_end_stop_command
        [where c = "moving_drag_card\<lparr> isManualControlEnabled := False \<rparr>"
          and changed = "[P_isManualControlEnabled]" and t = 1100]
    by simp
qed

text \<open>
  The smallest velocity the dispatcher transmits is 0.02 (written \<open>1 / 50\<close>), which is not
  more than the epsilon away from \<open>0\<close>: a drag that starts straight ahead at \<open>y = 0.167\<close>,
  is shaped to \<open>(0.02, 0)\<close> and is released 100 ms later ends without a transmission as
  well.
\<close>

lemma slow_drag_release:
  "snd (handleJoystickStart enabled_card 0 (167 / 1000) 1000) = [SendCommand (1 / 50) 0]
   \<and> snd (handleJoystickEnd
            (startCommandInterval (fst (handleJoystickStart enabled_card 0 (167 / 1000) 1000)))
            1100) = []"
proof -
  let ?c = "(dragging_card (1 / 50))
              \<lparr> lastSent := \<lparr> ls_angle = Some 0, ls_velocity = Some (1 / 50) \<rparr>,
                lastSendTime := 1000 \<rparr>"
  have n: "numVelocity (1 / 50) = 1 / 50"
    by (simp add: numVelocity_def snapVelocity_def round3_def clampVelocity_def
        velocityEpsilon_def)
  have m: "calculateMovement c 0 (167 / 1000) = c\<lparr> velocity := 1 / 50, angle := 0 \<rparr>" for c
    by (simp add: calculateMovement_def Let_def deadzone_def normalizeAxisValue_def speed_def
        clampVelocity_def)
  have a: "handleJoystickStart enabled_card 0 (167 / 1000) 1000
             = (?c\<lparr> commandInterval := False \<rparr>, [SendCommand (1 / 50) 0])"
    by (simp add: handleJoystickStart_def updateJoystickPosition_def m deadzone_def
        sendCommand_def Let_def dragging_card_def enabled_card_def constructor_def
        ex_hass_def angleChanged_def shouldSend_def n)
  have b: "startCommandInterval (?c\<lparr> commandInterval := False \<rparr>) = ?c"
    by (simp add: startCommandInterval_def dragging_card_def)
  have "isDragging ?c"
    by (simp add: dragging_card_def)
  then have "snd (handleJoystickEnd ?c 1100) = []"
    by (simp add: handleJoystickEnd_stop angleChanged_def velocityChanged_def
        angleEpsilon_def velocityEpsilon_def commandIntervalMs_def)
  then show ?thesis
    unfolding a by (simp add: b)
qed

section \<open>Suppression and refresh\<close>

text \<open>
  Rounding is monotone and fixes the multiples of its step, so a raw value within an
  epsilon of a rounded value stays within it after rounding; clamping to \<open>[-1, 1]\<close> brings a
  value no further from a point of that interval.
\<close>

lemma round_scaled_within:
  fixes x :: real
  assumes "\<bar>x - of_int k\<bar> \<le> of_int d"
  shows "\<bar>of_int (round x) - (of_int k :: real)\<bar> \<le> of_int d"
proof -
  have up: "x \<le> of_int (k + d)" and lo: "of_int (k - d) \<le> x"
    using assms by (simp_all add: abs_le_iff)
  have "round x \<le> round (of_int (k + d) :: real)"
    using up by (rule round_mono)
  moreover have "round (of_int (k - d) :: real) \<le> round x"
    using lo by (rule round_mono)
  ultimately have "round x \<le> k + d" "k - d \<le> round x"
    by (simp_all only: round_of_int)
  then have "\<bar>round x - k\<bar> \<le> d"
    by (simp add: abs_le_iff)
  then have "\<bar>(of_int (round x - k) :: real)\<bar> \<le> of_int d"
    by (metis of_int_abs of_int_le_iff)
  then show ?thesis
    by simp
qed

lemma round1_within:
  assumes "\<bar>a - round1 b\<bar> \<le> angleEpsilon"
  shows "\<bar>round1 a - round1 b\<bar> \<le> angleEpsilon"
proof -
  have "\<bar>a * 10 - of_int (round (b * 10))\<bar> \<le> of_int 30"
    using assms by (simp add: round1_def angleEpsilon_def abs_le_iff field_simps)
  from round_scaled_within [OF this]
  show ?thesis
    by (simp add: round1_def angleEpsilon_def abs_le_iff field_simps)
qed

lemma round3_within:
  assumes "\<bar>v - round3 w\<bar> \<le> velocityEpsilon"
  shows "\<bar>round3 v - round3 w\<bar> \<le> velocityEpsilon"
proof -
  have "\<bar>v * 1000 - of_int (round (w * 1000))\<bar> \<le> of_int 20"
    using assms by (simp add: round3_def velocityEpsilon_def abs_le_iff field_simps)
  from round_scaled_within [OF this]
  show ?thesis
    by (simp add: round3_def velocityEpsilon_def abs_le_iff field_simps)
qed

lemma clampVelocity_within:
  assumes "- 1 \<le> w" "w \<le> 1" "\<bar>v - w\<bar> \<le> e"
  shows "\<bar>clampVelocity v - w\<bar> \<le> e"
  using assms by (auto simp: clampVelocity_def abs_le_iff max_def min_def)

lemma numVelocity_is_round3: "\<exists>w. numVelocity v = round3 w"
proof (cases "\<bar>round3 (clampVelocity v)\<bar> < velocityEpsilon")
  case True
  then have "numVelocity v = round3 0"
    by (simp add: numVelocity_def snapVelocity_def round3_def)
  then show ?thesis ..
next
  case False
  then have "numVelocity v = round3 (clampVelocity v)"
    by (simp add: numVelocity_def snapVelocity_def)
  then show ?thesis ..
qed

lemma numVelocity_within:
  assumes "\<bar>v - numVelocity w\<bar> \<le> velocityEpsilon"
    and "velocityEpsilon \<le> \<bar>round3 (clampVelocity v)\<bar> \<or> \<bar>numVelocity w\<bar> \<le> velocityEpsilon"
  shows "\<bar>numVelocity v - numVelocity w\<bar> \<le> velocityEpsilon"
proof -
  obtain u where u: "numVelocity w = round3 u"
    using numVelocity_is_round3 by blast
  have "\<bar>clampVelocity v - numVelocity w\<bar> \<le> velocityEpsilon"
    using numVelocity_range [of w] assms(1) by (intro clampVelocity_within) simp_all
  then have r: "\<bar>round3 (clampVelocity v) - numVelocity w\<bar> \<le> velocityEpsilon"
    unfolding u by (rule round3_within)
  show ?thesis
  proof (cases "\<bar>round3 (clampVelocity v)\<bar> < velocityEpsilon")
    case True
    then show ?thesis
      using assms(2) by (simp add: numVelocity_def [of v] snapVelocity_def)
  next
    case False
    then show ?thesis
      using r by (simp add: numVelocity_def [of v] snapVelocity_def)
  qed
qed

text \<open>
  The two results of a dispatcher call, and what a call that transmitted and did not
  throw leaves in the cache.
\<close>

lemma sendCommand_cases:
  "sendCommand c v a t = (c, []) \<or>
   (\<exists>h rv ra. hass c = Some h \<and> v = Num rv \<and> a = Num ra
      \<and> sendCommand c v a t =
          (case callService h (SendCommand (numVelocity rv) (numAngle ra)) of
             Throws \<Rightarrow> c
           | _ \<Rightarrow> c\<lparr> lastSent := \<lparr> ls_angle = Some (numAngle ra),
                                      ls_velocity = Some (numVelocity rv) \<rparr>,
                       lastSendTime := t \<rparr>,
           [SendCommand (numVelocity rv) (numAngle ra)]))"
  by (auto simp: sendCommand_def Let_def split: option.splits jsnum.splits outcome.splits)

lemma sendCommand_transmitted:
  assumes "snd (sendCommand c v a t) = [SendCommand vel ang]"
    and "hass c = Some h" and "callService h (SendCommand vel ang) \<noteq> Throws"
  shows "fst (sendCommand c v a t) =
           c\<lparr> lastSent := \<lparr> ls_angle = Some ang, ls_velocity = Some vel \<rparr>,
               lastSendTime := t \<rparr>
         \<and> (\<exists>rv ra. v = Num rv \<and> a = Num ra \<and> vel = numVelocity rv \<and> ang = numAngle ra)"
proof -
  from sendCommand_cases [of c v a t] assms(1,2)
  obtain rv ra where v: "v = Num rv" "a = Num ra"
    and s: "sendCommand c v a t =
          (case callService h (SendCommand (numVelocity rv) (numAngle ra)) of
             Throws \<Rightarrow> c
           | _ \<Rightarrow> c\<lparr> lastSent := \<lparr> ls_angle = Some (numAngle ra),
                                      ls_velocity = Some (numVelocity rv) \<rparr>,
                       lastSendTime := t \<rparr>,
           [SendCommand (numVelocity rv) (numAngle ra)])"
    by auto
  from s assms(1) have e: "vel = numVelocity rv" "ang = numAngle ra"
    by simp_all
  from assms(3) have "callService h (SendCommand (numVelocity rv) (numAngle ra)) \<noteq> Throws"
    unfolding e .
  then have "fst (sendCommand c v a t) =
           c\<lparr> lastSent := \<lparr> ls_angle = Some (numAngle ra), ls_velocity = Some (numVelocity rv) \<rparr>,
               lastSendTime := t \<rparr>"
    unfolding s by (cases "callService h (SendCommand (numVelocity rv) (numAngle ra))") simp_all
  then show ?thesis
    using v e by simp
qed

lemma sendCommand_not_shouldSend:
  assumes "\<not> shouldSend c (numVelocity v) (numAngle a) t"
  shows "sendCommand c (Num v) (Num a) t = (c, [])"
proof (cases "hass c")
  case None
  then show ?thesis by (simp add: sendCommand_def)
next
  case (Some h)
  then show ?thesis
    using assms by (simp add: sendCommand_def Let_def)
qed

lemma numVelocity_3: "numVelocity (3 / 100) = 3 / 100"
  by (simp add: numVelocity_def snapVelocity_def round3_def clampVelocity_def
      velocityEpsilon_def)

lemma numVelocity_15: "numVelocity (3 / 200) = 0"
  by (simp add: numVelocity_def snapVelocity_def round3_def clampVelocity_def
      velocityEpsilon_def)

lemma enabled_send:
  "sendCommand enabled_card (Num w) (Num 0) 1000 =
     (enabled_card\<lparr> lastSent := \<lparr> ls_angle = Some 0, ls_velocity = Some (numVelocity w) \<rparr>,
                    lastSendTime := 1000 \<rparr>,
      [SendCommand (numVelocity w) 0])"
  by (simp add: sendCommand_def enabled_card_def constructor_def
      ex_hass_def angleChanged_def shouldSend_def Let_def)

text \<open>
  On the values the dispatcher compares (the angle rounded; the velocity clamped, rounded
  and snapped), in exact arithmetic: within both epsilons of a full cache and less than
  250 ms after the last send, nothing is transmitted and the state stays as it is.
\<close>

lemma processed_within_suppressed:
  assumes "lastSent c = \<lparr> ls_angle = Some ang, ls_velocity = Some vel \<rparr>"
    and "t - lastSendTime c < commandIntervalMs"
    and "\<bar>numAngle a - ang\<bar> \<le> angleEpsilon"
    and "\<bar>numVelocity v - vel\<bar> \<le> velocityEpsilon"
  shows "sendCommand c (Num v) (Num a) t = (c, [])"
proof -
  have "\<not> angleChanged c (numAngle a)"
    using assms(3) by (simp add: angleChanged_def assms(1))
  moreover have "\<not> velocityChanged c (numVelocity v)"
    using assms(4) by (simp add: velocityChanged_def assms(1))
  ultimately have "\<not> shouldSend c (numVelocity v) (numAngle a) t"
    using assms(2) by (simp add: shouldSend_def assms(1))
  then show ?thesis
    by (rule sendCommand_not_shouldSend)
qed

text \<open>A raw velocity of at least the epsilon is not snapped.\<close>

lemma round3_clamp_ge:
  assumes "velocityEpsilon \<le> \<bar>v\<bar>"
  shows "velocityEpsilon \<le> \<bar>round3 (clampVelocity v)\<bar>"
proof (cases "0 \<le> v")
  case True
  with assms have "(20::real) \<le> clampVelocity v * 1000"
    by (simp add: velocityEpsilon_def clampVelocity_def)
  then have "round (20::real) \<le> round (clampVelocity v * 1000)"
    by (rule round_mono)
  then have "(20::real) \<le> of_int (round (clampVelocity v * 1000))"
    by simp
  then show ?thesis
    by (simp add: round3_def velocityEpsilon_def)
next
  case False
  with assms have "clampVelocity v * 1000 \<le> (- 20::real)"
    by (simp add: velocityEpsilon_def clampVelocity_def)
  then have "round (clampVelocity v * 1000) \<le> round (- 20::real)"
    by (rule round_mono)
  then have "of_int (round (clampVelocity v * 1000)) \<le> (- 20::real)"
    by simp
  then show ?thesis
    by (simp add: round3_def velocityEpsilon_def)
qed

text \<open>
  Claim C3 (epsilon suppression), as the code has it: after a call that transmitted
  \<open>(vel, ang)\<close> and did not throw, a call less than 250 ms later transmits nothing and
  leaves the state as it is when its raw vector is inside the epsilons by one rounding
  step (the raw angle within 2.9 degrees of \<open>ang\<close>, the raw velocity within 0.019 of
  \<open>vel\<close>) and the snap to zero cannot move the velocity away (the raw velocity is at least
  0.02 in absolute value, or \<open>vel\<close> is within 0.02 of \<open>0\<close>). The step keeps the
  dispatcher's comparison away from a difference of exactly one epsilon, which is the only
  place where the outcome depends on the rounding of doubles. The second call may find any
  state that holds the cache of the first.
\<close>

theorem epsilon_suppression:
  assumes "hass c0 = Some h0"
    and "snd (sendCommand c0 v0 a0 t0) = [SendCommand vel ang]"
    and "callService h0 (SendCommand vel ang) \<noteq> Throws"
    and "lastSent c1 = lastSent (fst (sendCommand c0 v0 a0 t0))"
    and "lastSendTime c1 = lastSendTime (fst (sendCommand c0 v0 a0 t0))"
    and "\<bar>a - ang\<bar> \<le> angleEpsilon - 1 / 10"
    and "\<bar>v - vel\<bar> \<le> velocityEpsilon - 1 / 1000"
    and "t1 - t0 < commandIntervalMs"
    and "velocityEpsilon \<le> \<bar>v\<bar> \<or> \<bar>vel\<bar> \<le> velocityEpsilon"
  shows "sendCommand c1 (Num v) (Num a) t1 = (c1, [])"
proof -
  from sendCommand_transmitted [OF assms(2,1,3)]
  obtain rv ra where cache: "lastSent c1 = \<lparr> ls_angle = Some ang, ls_velocity = Some vel \<rparr>"
    and time: "lastSendTime c1 = t0"
    and vel: "vel = numVelocity rv" and ang: "ang = numAngle ra"
    using assms(4,5) by auto
  have "\<bar>a - ang\<bar> \<le> angleEpsilon"
    using assms(6) by simp
  then have na: "\<bar>numAngle a - ang\<bar> \<le> angleEpsilon"
    unfolding ang numAngle_def by (rule round1_within)
  have "\<bar>v - vel\<bar> \<le> velocityEpsilon"
    using assms(7) by simp
  moreover have "velocityEpsilon \<le> \<bar>round3 (clampVelocity v)\<bar> \<or> \<bar>vel\<bar> \<le> velocityEpsilon"
    using assms(9) round3_clamp_ge [of v] by blast
  ultimately have nv: "\<bar>numVelocity v - vel\<bar> \<le> velocityEpsilon"
    unfolding vel by (rule numVelocity_within)
  show ?thesis
    using cache _ na nv by (rule processed_within_suppressed) (simp add: time assms(8))
qed

text \<open>
  Claim C3 as stated fails: after \<open>(0.03, 0)\<close> was transmitted, the raw vector
  \<open>(0.015, 0)\<close> (written \<open>3 / 200\<close>) 100 ms later is within both epsilons, yet its rounded
  velocity is snapped to \<open>0\<close>, which is 0.03 away, and the stop command is transmitted.
\<close>

theorem snapped_velocity_transmits:
  "snd (sendCommand enabled_card (Num (3 / 100)) (Num 0) 1000) = [SendCommand (3 / 100) 0]
   \<and> \<bar>0 - (0::real)\<bar> \<le> angleEpsilon
   \<and> \<bar>3 / 200 - (3 / 100 :: real)\<bar> \<le> velocityEpsilon
   \<and> (1100::int) - 1000 < commandIntervalMs
   \<and> snd (sendCommand (fst (sendCommand enabled_card (Num (3 / 100)) (Num 0) 1000))
            (Num (3 / 200)) (Num 0) 1100) = [SendCommand 0 0]"
proof -
  have "snd (sendCommand
          (enabled_card\<lparr> lastSent := \<lparr> ls_angle = Some 0, ls_velocity = Some (3 / 100) \<rparr>,
                         lastSendTime := 1000 \<rparr>)
          (Num (3 / 200)) (Num 0) 1100) = [SendCommand 0 0]"
    by (simp add: sendCommand_def enabled_card_def constructor_def ex_hass_def numVelocity_15
        angleChanged_def velocityChanged_def shouldSend_def velocityEpsilon_def)
  then show ?thesis
    by (simp add: enabled_send numVelocity_3 angleEpsilon_def velocityEpsilon_def
        commandIntervalMs_def)
qed

theorem epsilon_suppression_witness:
  "hass enabled_card = Some ex_hass
   \<and> snd (sendCommand enabled_card (Num (1 / 2)) (Num 0) 1000) = [SendCommand (1 / 2) 0]
   \<and> callService ex_hass (SendCommand (1 / 2) 0) \<noteq> Throws
   \<and> \<bar>2 - (0::real)\<bar> \<le> angleEpsilon - 1 / 10
   \<and> \<bar>51 / 100 - (1 / 2 :: real)\<bar> \<le> velocityEpsilon - 1 / 1000
   \<and> (1100::int) - 1000 < commandIntervalMs
   \<and> velocityEpsilon \<le> \<bar>51 / 100 :: real\<bar>
   \<and> sendCommand (fst (sendCommand enabled_card (Num (1 / 2)) (Num 0) 1000))
         (Num (51 / 100)) (Num 2) 1100
       = (fst (sendCommand enabled_card (Num (1 / 2)) (Num 0) 1000), [])"
proof -
  have h: "hass enabled_card = Some ex_hass"
    "snd (sendCommand enabled_card (Num (1 / 2)) (Num 0) 1000) = [SendCommand (1 / 2) 0]"
    "callService ex_hass (SendCommand (1 / 2) 0) \<noteq> Throws"
    by (simp_all add: enabled_send numVelocity_half)
      (simp_all add: enabled_card_def constructor_def ex_hass_def)
  have e: "\<bar>2 - (0::real)\<bar> \<le> angleEpsilon - 1 / 10"
    "\<bar>51 / 100 - (1 / 2 :: real)\<bar> \<le> velocityEpsilon - 1 / 1000"
    "(1100::int) - 1000 < commandIntervalMs"
    by (simp_all add: angleEpsilon_def velocityEpsilon_def commandIntervalMs_def)
  have r: "velocityEpsilon \<le> \<bar>51 / 100 :: real\<bar>"
    by (simp add: velocityEpsilon_def)
  show ?thesis
    using h e r
      epsilon_suppression [OF h refl refl e(1,2,3) disjI1 [OF r]]
    by simp
qed

text \<open>
  Claim C4 (periodic refresh), as the code has it: after a call that transmitted and did
  not throw, a call with the same vector at least 250 ms later, made with a host context
  and manual control enabled, transmits the same command again unless the processed vector
  is \<open>(0, 0)\<close>; the stop vector is never refreshed.
\<close>

theorem periodic_refresh:
  assumes "hass c0 = Some h0"
    and "snd (sendCommand c0 (Num v) (Num a) t0) = [SendCommand vel ang]"
    and "callService h0 (SendCommand vel ang) \<noteq> Throws"
    and "lastSent c1 = lastSent (fst (sendCommand c0 (Num v) (Num a) t0))"
    and "lastSendTime c1 = lastSendTime (fst (sendCommand c0 (Num v) (Num a) t0))"
    and "hass c1 = Some h1" and "isManualControlEnabled c1"
    and "commandIntervalMs \<le> t1 - t0"
  shows "snd (sendCommand c1 (Num v) (Num a) t1) =
           (if vel = 0 \<and> ang = 0 then [] else [SendCommand vel ang])"
proof -
  from sendCommand_transmitted [OF assms(2,1,3)]
  have cache: "lastSent c1 = \<lparr> ls_angle = Some ang, ls_velocity = Some vel \<rparr>"
      "lastSendTime c1 = t0"
    and vel: "numVelocity v = vel" and ang: "numAngle a = ang"
    using assms(4,5) by auto
  have na: "\<not> angleChanged c1 ang"
    by (simp add: angleChanged_def cache angleEpsilon_def)
  have s: "shouldSend c1 vel ang t1"
    using assms(8) by (simp add: shouldSend_def cache)
  show ?thesis
    using na s assms(6,7)
    by (simp add: sendCommand_def Let_def vel ang cache split: outcome.splits)
qed

text \<open>
  Claim C4 as stated fails for the stop vector: \<open>(0, 0)\<close> is transmitted at time 1000
  and the same vector 300 ms later is not.
\<close>

theorem idle_stop_not_refreshed:
  "snd (sendCommand enabled_card (Num 0) (Num 0) 1000) = [SendCommand 0 0]
   \<and> commandIntervalMs \<le> 1300 - 1000
   \<and> snd (sendCommand (fst (sendCommand enabled_card (Num 0) (Num 0) 1000))
            (Num 0) (Num 0) 1300) = []"
proof -
  have "snd (sendCommand
          (enabled_card\<lparr> lastSent := \<lparr> ls_angle = Some 0, ls_velocity = Some 0 \<rparr>,
                         lastSendTime := 1000 \<rparr>)
          (Num 0) (Num 0) 1300) = []"
    by (simp add: sendCommand_stop angleChanged_def angleEpsilon_def)
  then show ?thesis
    by (simp add: enabled_send commandIntervalMs_def)
qed

theorem periodic_refresh_witness:
  "hass enabled_card = Some ex_hass
   \<and> snd (sendCommand enabled_card (Num (1 / 2)) (Num 0) 1000) = [SendCommand (1 / 2) 0]
   \<and> callService ex_hass (SendCommand (1 / 2) 0) \<noteq> Throws
   \<and> hass (fst (sendCommand enabled_card (Num (1 / 2)) (Num 0) 1000)) = Some ex_hass
   \<and> isManualControlEnabled (fst (sendCommand enabled_card (Num (1 / 2)) (Num 0) 1000))
   \<and> commandIntervalMs \<le> 1250 - 1000
   \<and> snd (sendCommand (fst (sendCommand enabled_card (Num (1 / 2)) (Num 0) 1000))
            (Num (1 / 2)) (Num 0) 1250) = [SendCommand (1 / 2) 0]"
proof -
  have h: "hass enabled_card = Some ex_hass"
    "snd (sendCommand enabled_card (Num (1 / 2)) (Num 0) 1000) = [SendCommand (1 / 2) 0]"
    "callService ex_hass (SendCommand (1 / 2) 0) \<noteq> Throws"
    by (simp_all add: enabled_send numVelocity_half)
      (simp_all add: enabled_card_def constructor_def ex_hass_def)
  have g: "hass (fst (sendCommand enabled_card (Num (1 / 2)) (Num 0) 1000)) = Some ex_hass"
    "isManualControlEnabled (fst (sendCommand enabled_card (Num (1 / 2)) (Num 0) 1000))"
    by (simp_all add: enabled_send) (simp_all add: enabled_card_def constructor_def)
  have e: "commandIntervalMs \<le> 1250 - 1000"
    by (simp add: commandIntervalMs_def)
  show ?thesis
    using h g e periodic_refresh [OF h refl refl g e]
    by simp
qed

section \<open>Failure of the gateway\<close>

text \<open>
  A call that throws leaves the state as it was, and the cache changes only after a call
  that did not throw.
\<close>

lemma thrown_send_keeps_cache:
  assumes "hass c = Some h"
    and "callService h (SendCommand (numVelocity v) (numAngle a)) = Throws"
  shows "fst (sendCommand c (Num v) (Num a) t) = c"
  using assms by (simp add: sendCommand_def Let_def)

lemma cache_update_needs_no_throw:
  assumes "fst (sendCommand c v a t) \<noteq> c"
  shows "\<exists>h vel ang. hass c = Some h \<and> snd (sendCommand c v a t) = [SendCommand vel ang]
           \<and> callService h (SendCommand vel ang) \<noteq> Throws"
proof -
  from assms sendCommand_cases [of c v a t]
  obtain h rv ra where h: "hass c = Some h"
    and s: "sendCommand c v a t =
          (case callService h (SendCommand (numVelocity rv) (numAngle ra)) of
             Throws \<Rightarrow> c
           | _ \<Rightarrow> c\<lparr> lastSent := \<lparr> ls_angle = Some (numAngle ra),
                                      ls_velocity = Some (numVelocity rv) \<rparr>,
                       lastSendTime := t \<rparr>,
           [SendCommand (numVelocity rv) (numAngle ra)])"
    by auto
  from assms s have "callService h (SendCommand (numVelocity rv) (numAngle ra)) \<noteq> Throws"
    by auto
  with h s show ?thesis
    by simp
qed

lemma thrown_send_example:
  "sendCommand throwing_card (Num (1 / 2)) (Num 0) 1000
     = (throwing_card, [SendCommand (1 / 2) 0])"
  by (simp add: sendCommand_def Let_def throwing_card_def enabled_card_def constructor_def
      ex_hass_def numVelocity_half angleChanged_def shouldSend_def)

text \<open>
  Claim C8 (failed transmission): a failed invocation must leave the cache untouched, so
  that the next tick retries. The code does so only for an invocation that throws. Here the
  promise returned by \<^verbatim>\<open>send_command\<close> is rejected: the cache, empty before, holds
  \<open>(0.5, 0)\<close> and the time 1000 afterwards, and the same vector 100 ms later is suppressed
  instead of retried.
\<close>

theorem rejected_send_updates_cache:
  "lastSent rejecting_card = \<lparr> ls_angle = None, ls_velocity = None \<rparr>
   \<and> lastSendTime rejecting_card = 0
   \<and> hass rejecting_card = Some rejecting_hass
   \<and> callService rejecting_hass (SendCommand (1 / 2) 0) = Rejects
   \<and> snd (sendCommand rejecting_card (Num (1 / 2)) (Num 0) 1000) = [SendCommand (1 / 2) 0]
   \<and> lastSent (fst (sendCommand rejecting_card (Num (1 / 2)) (Num 0) 1000))
       = \<lparr> ls_angle = Some 0, ls_velocity = Some (1 / 2) \<rparr>
   \<and> lastSendTime (fst (sendCommand rejecting_card (Num (1 / 2)) (Num 0) 1000)) = 1000
   \<and> snd (sendCommand (fst (sendCommand rejecting_card (Num (1 / 2)) (Num 0) 1000))
            (Num (1 / 2)) (Num 0) 1100) = []"
proof -
  have s: "sendCommand rejecting_card (Num (1 / 2)) (Num 0) 1000 =
      (rejecting_card\<lparr> lastSent := \<lparr> ls_angle = Some 0, ls_velocity = Some (1 / 2) \<rparr>,
                       lastSendTime := 1000 \<rparr>,
       [SendCommand (1 / 2) 0])"
    by (simp add: sendCommand_def Let_def rejecting_card_def rejecting_hass_def
        enabled_card_def constructor_def ex_hass_def numVelocity_half angleChanged_def
        shouldSend_def)
  have "\<not> shouldSend
           (rejecting_card\<lparr> lastSent := \<lparr> ls_angle = Some 0, ls_velocity = Some (1 / 2) \<rparr>,
                            lastSendTime := 1000 \<rparr>)
           (numVelocity (1 / 2)) (numAngle 0) 1100"
    by (simp add: shouldSend_def angleChanged_def velocityChanged_def numVelocity_half
        commandIntervalMs_def angleEpsilon_def velocityEpsilon_def)
  then have "snd (sendCommand
           (rejecting_card\<lparr> lastSent := \<lparr> ls_angle = Some 0, ls_velocity = Some (1 / 2) \<rparr>,
                            lastSendTime := 1000 \<rparr>)
           (Num (1 / 2)) (Num 0) 1100) = []"
    by (simp add: sendCommand_not_shouldSend)
  then show ?thesis
    unfolding s
    by (simp add: rejecting_card_def rejecting_hass_def enabled_card_def constructor_def
        ex_hass_def)
qed

section \<open>The vector shaper: lanes\<close>

text \<open>
  Claim C9 (mode partition), as the code has it: the translation lane is tested first and
  both lanes start strictly beyond the deadzone. Inputs with \<open>|y| > deadzone\<close> and
  \<open>|x| < 1.5 deadzone\<close> yield angle \<open>0\<close>; inputs with \<open>|x| > deadzone\<close> and
  \<open>|y| < 1.5 deadzone\<close> that are not in the translation lane yield velocity \<open>0\<close> and angle
  \<open>90\<close> for \<open>x > 0\<close>, \<open>-90\<close> otherwise.
\<close>

theorem mode_partition:
  "(deadzone < \<bar>y\<bar> \<and> \<bar>x\<bar> < deadzone * (15 / 10)
      \<longrightarrow> angle (calculateMovement c x y) = 0)
   \<and> (deadzone < \<bar>x\<bar> \<and> \<bar>y\<bar> < deadzone * (15 / 10)
        \<and> (\<bar>y\<bar> \<le> deadzone \<or> deadzone * (15 / 10) \<le> \<bar>x\<bar>)
      \<longrightarrow> velocity (calculateMovement c x y) = 0
          \<and> angle (calculateMovement c x y) = (if 0 < x then 90 else - 90))"
  by (auto simp: calculateMovement_def Let_def)

lemma translation_overlap:
  "angle (calculateMovement constructor (2 / 10) (2 / 10)) = 0
   \<and> velocity (calculateMovement constructor (2 / 10) (2 / 10)) = 1 / 17"
  by (simp add: calculateMovement_def Let_def deadzone_def normalizeAxisValue_def speed_def
      clampVelocity_def)

lemma boundary_angle: "angle (calculateMovement constructor (1 / 10) (15 / 100)) \<noteq> 0"
proof -
  have "angle (calculateMovement constructor (1 / 10) (15 / 100))
          = arctan (2 / 3) * 180 / pi"
    by (simp add: calculateMovement_def Let_def deadzone_def atan2_def)
  moreover have "0 < arctan (2 / 3 :: real)"
    by simp
  ultimately show ?thesis
    by simp
qed

lemma boundary_velocity: "velocity (calculateMovement constructor (15 / 100) (1 / 10)) \<noteq> 0"
proof -
  let ?m = "sqrt (15 / 100 * (15 / 100) + 1 / 10 * (1 / 10) :: real)"
  have "(15 / 100)\<^sup>2 < (15 / 100 * (15 / 100) + 1 / 10 * (1 / 10) :: real)"
    by (simp add: power2_eq_square)
  then have m: "15 / 100 < ?m"
    by (rule real_less_rsqrt)
  then have "0 < normalizeAxisValue ?m"
    by (simp add: normalizeAxisValue_def deadzone_def)
  then have "0 < clampVelocity (normalizeAxisValue ?m * speed)"
    by (simp add: clampVelocity_def speed_def)
  moreover have "velocity (calculateMovement constructor (15 / 100) (1 / 10))
      = clampVelocity (normalizeAxisValue ?m * speed)"
    by (simp add: calculateMovement_def Let_def deadzone_def)
  ultimately show ?thesis
    by simp
qed

text \<open>
  Claim C9 as stated fails: \<open>(0.2, 0.2)\<close> satisfies the condition of the rotation lane
  and is shaped as a translation (angle \<open>0\<close>, velocity \<open>1 / 17\<close>); and on the edge of the
  deadzone, \<open>(0.1, 0.15)\<close> has an angle other than \<open>0\<close> and \<open>(0.15, 0.1)\<close> a velocity other
  than \<open>0\<close>, because neither lane includes its edge.
\<close>

theorem mode_partition_fails:
  "deadzone \<le> \<bar>2 / 10\<bar> \<and> \<bar>2 / 10\<bar> < 15 / 10 * deadzone
   \<and> angle (calculateMovement constructor (2 / 10) (2 / 10)) = 0
   \<and> velocity (calculateMovement constructor (2 / 10) (2 / 10)) = 1 / 17
   \<and> deadzone \<le> \<bar>15 / 100\<bar> \<and> \<bar>1 / 10\<bar> < 15 / 10 * deadzone
   \<and> angle (calculateMovement constructor (1 / 10) (15 / 100)) \<noteq> 0
   \<and> velocity (calculateMovement constructor (15 / 100) (1 / 10)) \<noteq> 0"
  using translation_overlap boundary_angle boundary_velocity
  by (simp add: deadzone_def)

theorem mode_partition_witness:
  "deadzone < \<bar>1 / 2\<bar> \<and> \<bar>1 / 10\<bar> < deadzone * (15 / 10)
   \<and> angle (calculateMovement constructor (1 / 10) (1 / 2)) = 0
   \<and> deadzone < \<bar>- (1 / 2)\<bar> \<and> \<bar>1 / 10\<bar> \<le> deadzone
   \<and> velocity (calculateMovement constructor (- (1 / 2)) (1 / 10)) = 0
   \<and> angle (calculateMovement constructor (- (1 / 2)) (1 / 10)) = - 90"
  using mode_partition [of "1 / 2" "1 / 10" constructor]
    mode_partition [of "1 / 10" "- (1 / 2)" constructor]
  by (simp add: deadzone_def)

section \<open>The reconciler\<close>

lemma switch_id_matches:
  "isManualControlSwitch (''switch.robot_manual_control'', e)"
  by (simp add: isManualControlSwitch_def)

lemma findSwitchEntity_off:
  "findSwitchEntity off_hass = Some \<lparr> ent_state = ''off'', friendly_name = None \<rparr>"
  by (simp add: findSwitchEntity_def off_hass_def switch_id_matches)

lemma toggle_off_card:
  "toggleManualControl off_card
     = (pending_enable_card, [SetWaterUsagePreset ''off'', SetManualControlState True])"
  by (simp add: toggleManualControl_def Let_def pending_enable_card_def off_card_def
      disabled_card_def constructor_def off_hass_def ex_hass_def getWaterUsagePreset_def
      setWaterUsagePreset_def)

lemma ready_pending_enable: "ready pending_enable_card = Some off_hass"
  by (simp add: ready_def pending_enable_card_def off_card_def disabled_card_def ex_config_def)

text \<open>
  Claim C6 (poll during a pending toggle), as the code has it: a poll tick that finds the
  switch entity and observes the value the card already knows clears the toggling flag, so
  the state becomes plain \<open>Enabled\<close> or \<open>Disabled\<close> as last known; the state stays
  \<open>PendingToggle\<close> only when the tick cannot observe the switch (no host context, no
  configured entity, or no matching switch entity).
\<close>

theorem poll_settles_pending_toggle:
  "(isTogglingManualControl c \<and> ready c = Some h \<and> findSwitchEntity h = Some e
      \<and> (ent_state e = ''on'') = isManualControlEnabled c
      \<longrightarrow> findAndSetManualControlState c = c\<lparr> isTogglingManualControl := False \<rparr>
          \<and> reconciler_state (findAndSetManualControlState c)
              = (if isManualControlEnabled c then Enabled else Disabled))
   \<and> (isTogglingManualControl c
        \<and> (ready c = None \<or> (ready c = Some h \<and> findSwitchEntity h = None))
      \<longrightarrow> findAndSetManualControlState c = c
          \<and> reconciler_state (findAndSetManualControlState c)
              = PendingToggle (\<not> isManualControlEnabled c))"
  by (auto simp: findAndSetManualControlState_def initializeManualControlState_def
      reconciler_state_def Let_def split: option.splits)

text \<open>
  Claim C6 as stated fails: an enable has been requested, the switch is still \<^verbatim>\<open>off\<close>,
  and the poll tick leaves the state \<open>Disabled\<close>, not \<open>PendingToggle\<close>.
\<close>

theorem poll_clears_unchanged_pending:
  "fst (toggleManualControl off_card) = pending_enable_card
   \<and> reconciler_state pending_enable_card = PendingToggle True
   \<and> ready pending_enable_card = Some off_hass
   \<and> findSwitchEntity off_hass = Some \<lparr> ent_state = ''off'', friendly_name = None \<rparr>
   \<and> (''off'' = ''on'') = isManualControlEnabled pending_enable_card
   \<and> reconciler_state (findAndSetManualControlState pending_enable_card) = Disabled"
proof -
  have f: "\<not> isManualControlEnabled pending_enable_card"
    "isTogglingManualControl pending_enable_card"
    by (simp_all add: pending_enable_card_def off_card_def disabled_card_def constructor_def)
  have "findAndSetManualControlState pending_enable_card
          = pending_enable_card\<lparr> isTogglingManualControl := False \<rparr>"
    by (simp add: findAndSetManualControlState_def ready_pending_enable findSwitchEntity_off f)
  then show ?thesis
    using f
    by (simp add: ready_pending_enable findSwitchEntity_off reconciler_state_def
        toggle_off_card)
qed

theorem poll_settles_pending_toggle_witness:
  "isTogglingManualControl pending_enable_card \<and> ready pending_enable_card = Some off_hass
   \<and> findSwitchEntity off_hass = Some \<lparr> ent_state = ''off'', friendly_name = None \<rparr>
   \<and> findAndSetManualControlState pending_enable_card
       = pending_enable_card\<lparr> isTogglingManualControl := False \<rparr>
   \<and> reconciler_state (findAndSetManualControlState pending_enable_card) = Disabled
   \<and> isTogglingManualControl no_switch_card
   \<and> ready no_switch_card = Some (ex_hass\<lparr> states := [] \<rparr>)
   \<and> findSwitchEntity (ex_hass\<lparr> states := [] \<rparr>) = None
   \<and> findAndSetManualControlState no_switch_card = no_switch_card
   \<and> reconciler_state (findAndSetManualControlState no_switch_card) = PendingToggle True"
proof -
  have p: "isTogglingManualControl pending_enable_card"
    "\<not> isManualControlEnabled pending_enable_card"
    by (simp_all add: pending_enable_card_def off_card_def disabled_card_def constructor_def)
  have n: "isTogglingManualControl no_switch_card"
    "\<not> isManualControlEnabled no_switch_card"
    "ready no_switch_card = Some (ex_hass\<lparr> states := [] \<rparr>)"
    "findSwitchEntity (ex_hass\<lparr> states := [] \<rparr>) = None"
    by (simp_all add: no_switch_card_def disabled_card_def constructor_def ready_def
        ex_config_def findSwitchEntity_def)
  show ?thesis
    using p n ready_pending_enable findSwitchEntity_off
      poll_settles_pending_toggle [where c = pending_enable_card and h = off_hass
        and e = "\<lparr> ent_state = ''off'', friendly_name = None \<rparr>"]
      poll_settles_pending_toggle [where c = no_switch_card
        and h = "ex_hass\<lparr> states := [] \<rparr>"]
    by (simp add: reconciler_state_def)
qed





end
